theory Spec2Isabelle
  imports Main "HOL-Library.Multiset"
begin

section \<open>yml2tex: values, errors and the Python operations the code relies on\<close>

text \<open>
  The program is \<^verbatim>\<open>src/yml2tex/__init__.py\<close> (Python 2). Every function of it is translated
  below under its own name. A raise is a value \<open>Inl e\<close> of the result type \<open>error + 'a\<close>.

  Text is a \<open>string\<close>: one \<open>char\<close> per character (code points below 256); the result of
  \<^verbatim>\<open>out.encode('utf-8')\<close> is a string of bytes.
\<close>

datatype error =
    IndexError | TypeError | AttributeError | ValueError | NameError | IOError
  | ExternalError string

text \<open>
  The loader hands over dynamically typed values: scalars (text, booleans, integers, null),
  sequences (Python lists) and the (key, value) pairs of a mapping (Python tuples).
\<close>

datatype pyval =
    Str string | Bool bool | IntV int | NoneV | List "pyval list" | Tuple "pyval list"

abbreviation bs :: string where "bs \<equiv> [CHR 0x5C]"
abbreviation tab :: string where "tab \<equiv> [CHR 0x09]"
abbreviation dq :: string where "dq \<equiv> [CHR 0x22]"

text \<open>Sequencing of steps that may raise: the first error ends the computation.\<close>

definition and_then :: "error + 'a \<Rightarrow> ('a \<Rightarrow> error + 'b) \<Rightarrow> error + 'b" where
  "and_then m f = (case m of Inl e \<Rightarrow> Inl e | Inr x \<Rightarrow> f x)"

text \<open>\<^verbatim>\<open>for x in xs: <body>\<close>, the body updating the loop's state (here always \<^verbatim>\<open>out\<close>).\<close>

fun for_each :: "'a list \<Rightarrow> ('a \<Rightarrow> 's \<Rightarrow> error + 's) \<Rightarrow> 's \<Rightarrow> error + 's" where
  "for_each [] body s = Inr s"
| "for_each (x # xs) body s = and_then (body x s) (for_each xs body)"

text \<open>Iteration over a value: lists and tuples give their elements, text its characters.\<close>

fun py_iter :: "pyval \<Rightarrow> error + pyval list" where
  "py_iter (List xs) = Inr xs"
| "py_iter (Tuple xs) = Inr xs"
| "py_iter (Str s) = Inr (map (\<lambda>c. Str [c]) s)"
| "py_iter _ = Inl TypeError"

definition index_list :: "'a list \<Rightarrow> nat \<Rightarrow> error + 'a" where
  "index_list xs i = (if i < length xs then Inr (xs ! i) else Inl IndexError)"

text \<open>\<^verbatim>\<open>v[i]\<close> for the indices 0 and 1 that the code uses.\<close>

fun py_index :: "pyval \<Rightarrow> nat \<Rightarrow> error + pyval" where
  "py_index (List xs) i = index_list xs i"
| "py_index (Tuple xs) i = index_list xs i"
| "py_index (Str s) i = and_then (index_list s i) (\<lambda>c. Inr (Str [c]))"
| "py_index _ i = Inl TypeError"

text \<open>\<^verbatim>\<open>del v[0]\<close>: only a list supports it.\<close>

fun py_del0 :: "pyval \<Rightarrow> error + pyval" where
  "py_del0 (List []) = Inl IndexError"
| "py_del0 (List (x # xs)) = Inr (List xs)"
| "py_del0 _ = Inl TypeError"

text \<open>\<^verbatim>\<open>for a, b in ...\<close>: each element is unpacked into exactly two values.\<close>

definition py_unpack2 :: "pyval \<Rightarrow> error + (pyval \<times> pyval)" where
  "py_unpack2 e =
     and_then (py_iter e) (\<lambda>kv. case kv of [a, b] \<Rightarrow> Inr (a, b) | _ \<Rightarrow> Inl ValueError)"

fun isinstance_list :: "pyval \<Rightarrow> bool" where
  "isinstance_list (List xs) = True"
| "isinstance_list _ = False"

fun py_truth :: "pyval \<Rightarrow> bool" where
  "py_truth (Str s) = (s \<noteq> [])"
| "py_truth (Bool b) = b"
| "py_truth (IntV i) = (i \<noteq> 0)"
| "py_truth NoneV = False"
| "py_truth (List xs) = (xs \<noteq> [])"
| "py_truth (Tuple xs) = (xs \<noteq> [])"

subsection \<open>Dictionaries\<close>

text \<open>
  \<^verbatim>\<open>dict(v)\<close> takes a sequence of two-element sequences with hashable keys. The dictionary is
  kept as the list of its insertions, a later one overriding an earlier one with the same key.
\<close>

fun hashable :: "pyval \<Rightarrow> bool" where
  "hashable (List xs) = False"
| "hashable (Tuple xs) = list_all hashable xs"
| "hashable _ = True"

definition dict_entry :: "pyval \<Rightarrow> error + (pyval \<times> pyval)" where
  "dict_entry e =
     and_then (py_iter e) (\<lambda>kv. case kv of
         [k, v] \<Rightarrow> if hashable k then Inr (k, v) else Inl TypeError
       | _ \<Rightarrow> Inl ValueError)"

definition py_dict :: "pyval \<Rightarrow> error + (pyval \<times> pyval) list" where
  "py_dict v =
     and_then (py_iter v) (\<lambda>es.
     for_each es (\<lambda>e d. and_then (dict_entry e) (\<lambda>kv. Inr (d @ [kv]))) [])"

text \<open>\<^verbatim>\<open>d.get(k, default)\<close> for a text key \<open>k\<close>.\<close>

definition dict_get :: "(pyval \<times> pyval) list \<Rightarrow> string \<Rightarrow> pyval \<Rightarrow> pyval" where
  "dict_get d k dflt = (case map_of (rev d) (Str k) of Some v \<Rightarrow> v | None \<Rightarrow> dflt)"

subsection \<open>Text operations\<close>

definition startswith :: "string \<Rightarrow> string \<Rightarrow> bool" where
  "startswith s p = (take (length p) s = p)"

fun py_startswith :: "pyval \<Rightarrow> string \<Rightarrow> error + bool" where
  "py_startswith (Str s) p = Inr (startswith s p)"
| "py_startswith _ p = Inl AttributeError"

text \<open>\<^verbatim>\<open>s.split(sep)\<close> for a one-character separator: every occurrence separates.\<close>

fun split :: "string \<Rightarrow> char \<Rightarrow> string list" where
  "split [] sep = [[]]"
| "split (c # cs) sep =
     (if c = sep then [] # split cs sep
      else (case split cs sep of w # ws \<Rightarrow> (c # w) # ws | [] \<Rightarrow> [[c]]))"

fun py_split :: "pyval \<Rightarrow> char \<Rightarrow> error + string list" where
  "py_split (Str s) sep = Inr (split s sep)"
| "py_split _ sep = Inl AttributeError"

text \<open>\<^verbatim>\<open>text.replace(old, new)\<close>: the occurrences of \<open>old\<close>, left to right, not overlapping.\<close>

function replace :: "string \<Rightarrow> string \<Rightarrow> string \<Rightarrow> string" where
  "replace [] old new = (if old = [] then new else [])"
| "replace (c # cs) old new =
     (if old = [] then new @ c # replace cs old new
      else if startswith (c # cs) old then new @ replace (drop (length old) (c # cs)) old new
      else c # replace cs old new)"
  by pat_completeness auto
termination
  by (relation "measure (\<lambda>(text, old, new). length text)") auto

text \<open>\<^verbatim>\<open>sep.join(xs)\<close>.\<close>

fun join :: "string \<Rightarrow> string list \<Rightarrow> string" where
  "join sep [] = []"
| "join sep [x] = x"
| "join sep (x # y # ys) = x @ sep @ join sep (y # ys)"

text \<open>\<^verbatim>\<open>out.encode('utf-8')\<close>.\<close>

definition utf8 :: "char \<Rightarrow> string" where
  "utf8 c = (let n = (of_char c :: nat) in
     if n < 128 then [c] else [char_of (192 + n div 64), char_of (128 + n mod 64)])"

definition encode_utf8 :: "string \<Rightarrow> string" where
  "encode_utf8 s = concat (map utf8 s)"

subsection \<open>The external collaborators\<close>

text \<open>
  What the program imports from outside the repository is a parameter of the model: the YAML
  loader with the repository's \<^verbatim>\<open>PairLoader\<close>, the highlighting engine (lexer lookup by file
  name, \<^verbatim>\<open>highlight\<close> with a \<^verbatim>\<open>LatexFormatter\<close>, the formatter's style definitions), the file
  system (\<open>read_file\<close> is \<open>None\<close> for a file that cannot be opened), and two services of the
  interpreter: \<^verbatim>\<open>str\<close> of a value that is not text, and the order in which a dictionary
  yields its items. Any of the library calls may raise.
\<close>

record ('f, 'lx) env =
  yaml_load :: "'f \<Rightarrow> error + pyval"
  get_lexer_for_filename :: "string \<Rightarrow> error + 'lx"
  read_file :: "string \<rightharpoonup> string"
  highlight :: "string \<Rightarrow> 'lx \<Rightarrow> error + string"
  get_style_defs :: "pyval \<Rightarrow> error + string"
  str_of :: "pyval \<Rightarrow> string"
  dict_items :: "(pyval \<times> pyval) list \<Rightarrow> (pyval \<times> pyval) list"

text \<open>\<^verbatim>\<open>str(v)\<close>, and the text that \<^verbatim>\<open>"...%s..." % v\<close> puts in place of its one \<^verbatim>\<open>%s\<close>: a tuple
  on the right of \<^verbatim>\<open>%\<close> is the argument list itself.\<close>

fun to_str :: "('f, 'lx) env \<Rightarrow> pyval \<Rightarrow> string" where
  "to_str env (Str s) = s"
| "to_str env v = str_of env v"

fun percent_s :: "('f, 'lx) env \<Rightarrow> pyval \<Rightarrow> error + string" where
  "percent_s env (Tuple [v]) = Inr (to_str env v)"
| "percent_s env (Tuple vs) = Inl TypeError"
| "percent_s env v = Inr (to_str env v)"

section \<open>The program\<close>

subsection \<open>\<^verbatim>\<open>_escape_output\<close>\<close>

definition dic :: "(string \<times> string) list" where
  "dic = [(''&'', bs @ ''&''), (''$'', bs @ ''$''), (''%'', bs @ ''%''), (''#'', bs @ ''#''),
          (''_'', bs @ ''_''), (''{'', bs @ ''{''), (''}'', bs @ ''}'')]"

text \<open>
  The loop \<^verbatim>\<open>for i, j in dic.iteritems(): text = text.replace(i, j)\<close>, for a given order of
  the entries. The interpreter fixes the order; \<open>escape_with_order\<close> below shows that the
  result is the same for every order, so the order of the source text is taken.
\<close>

definition escape_with :: "(string \<times> string) list \<Rightarrow> string \<Rightarrow> string" where
  "escape_with entries text = fold (\<lambda>(i, j) t. replace t i j) entries text"

fun escape_output :: "pyval \<Rightarrow> error + string" where
  "escape_output (Str text) = Inr (escape_with dic text)"
| "escape_output _ = Inl AttributeError"

subsection \<open>\<^verbatim>\<open>section\<close>, \<^verbatim>\<open>subsection\<close>\<close>

text \<open>The names \<open>section\<close> and \<open>subsection\<close> are keywords of Isabelle, and \<open>image\<close> is a
  constant of HOL: the three functions carry the suffix \<open>_cmd\<close>.\<close>

definition section_cmd :: "pyval \<Rightarrow> error + string" where
  "section_cmd title =
     and_then (escape_output title) (\<lambda>t. Inr (''\<newline>\<newline>'' @ bs @ ''section{'' @ t @ ''}''))"

definition subsection_cmd :: "pyval \<Rightarrow> error + string" where
  "subsection_cmd title =
     and_then (escape_output title) (\<lambda>t. Inr (''\<newline>'' @ bs @ ''subsection{'' @ t @ ''}''))"

subsection \<open>\<^verbatim>\<open>itemize\<close>\<close>

lemma and_then_cong [fundef_cong]:
  "m = n \<Longrightarrow> (\<And>x. n = Inr x \<Longrightarrow> f x = g x) \<Longrightarrow> and_then m f = and_then n g"
  by (auto simp: and_then_def split: sum.splits)

lemma for_each_cong [fundef_cong]:
  "xs = ys \<Longrightarrow> (\<And>x s. x \<in> set ys \<Longrightarrow> f x s = g x s) \<Longrightarrow> s = t
     \<Longrightarrow> for_each xs f s = for_each ys g t"
proof (induction ys arbitrary: xs s t)
  case Nil
  then show ?case by simp
next
  case (Cons y ys)
  then show ?case by (auto simp: and_then_def split: sum.splits)
qed

lemma size_index_list:
  "index_list xs i = Inr (w::pyval) \<Longrightarrow> size w < Suc (size_list size xs)"
  by (auto simp: index_list_def less_Suc_eq_le intro: size_list_estimation' [OF nth_mem]
      split: if_splits)

lemma py_index_size: "py_index v i = Inr w \<Longrightarrow> size w \<le> size v"
  by (cases v) (auto simp: and_then_def split: sum.splits dest!: size_index_list)

lemma py_index_list_size: "isinstance_list v \<Longrightarrow> py_index v i = Inr w \<Longrightarrow> size w < size v"
  by (cases v) (auto dest: size_index_list)

lemma py_iter_size: "py_iter v = Inr xs \<Longrightarrow> x \<in> set xs \<Longrightarrow> size x \<le> size v"
  by (cases v) (auto simp: less_Suc_eq_le size_list_estimation' intro: less_imp_le)

text \<open>
  The inner loop \<^verbatim>\<open>for i in item\<close> runs once per element of the nested item, and its body
  reads \<^verbatim>\<open>item[0]\<close> each time, not \<open>i\<close>.
\<close>

function itemize :: "pyval \<Rightarrow> error + string" where
  "itemize items =
     and_then (py_iter items) (\<lambda>xs.
     and_then (for_each xs (\<lambda>item out.
         if isinstance_list item then
           and_then (py_iter item) (\<lambda>js. for_each js (\<lambda>i out.
             and_then (py_index item 0) (\<lambda>p.
             and_then (py_index p 0) (\<lambda>label.
             and_then (escape_output label) (\<lambda>t.
             and_then (py_index item 0) (\<lambda>q.
             and_then (py_index q 1) (\<lambda>nested.
             and_then (itemize nested) (\<lambda>sub.
             Inr (out @ ''\<newline>'' @ tab @ bs @ ''item '' @ t @ sub)))))))) out)
         else
           and_then (escape_output item) (\<lambda>t.
           Inr (out @ ''\<newline>'' @ tab @ bs @ ''item '' @ t)))
       (''\<newline>'' @ tab @ bs @ ''begin{itemize}[<+-| alert@+>]''))
     (\<lambda>out. Inr (out @ ''\<newline>'' @ tab @ bs @ ''end{itemize}'')))"
  by pat_completeness auto

termination
proof (relation "measure size", goal_cases)
  case 1
  then show ?case by simp
next
  case (2 items xs item out js i outa p label t q nested)
  have "size nested \<le> size q" using 2 by (auto dest: py_index_size)
  moreover have "size q < size item" using 2 by (auto dest: py_index_list_size)
  moreover have "size item \<le> size items" using 2 by (auto dest: py_iter_size)
  ultimately show ?case by simp
qed

declare itemize.simps [simp del]

subsection \<open>\<^verbatim>\<open>code\<close>, \<^verbatim>\<open>image\<close>, \<^verbatim>\<open>frame\<close>\<close>

text \<open>
  The handler of the lexer lookup calls \<^verbatim>\<open>get_lexer_by_name\<close>, a name the module neither
  imports nor defines: whatever the lookup raised, the handler raises \<^verbatim>\<open>NameError\<close>.
\<close>

definition code :: "('f, 'lx) env \<Rightarrow> pyval \<Rightarrow> error + string" where
  "code env title =
     and_then (py_split title CHR '' '') (\<lambda>parts.
     and_then (index_list parts 1) (\<lambda>filename.
     and_then (case get_lexer_for_filename env filename of
                 Inr l \<Rightarrow> Inr l
               | Inl e \<Rightarrow> Inl NameError) (\<lambda>lexer.
     and_then (case read_file env filename of
                 Some contents \<Rightarrow> Inr contents
               | None \<Rightarrow> Inl IOError) (\<lambda>contents.
     and_then (highlight env contents lexer) (\<lambda>code.
     let out = ''\<newline>'' @ bs @ ''begin{frame}[fragile,t]'';
         out = out @ ''\<newline>'' @ tab @ bs @ ''frametitle{Code: '' @ dq @ filename @ dq @ ''}'';
         out = out @ code;
         out = out @ ''\<newline>'' @ bs @ ''end{frame}''
     in Inr out)))))"

definition image_cmd :: "('f, 'lx) env \<Rightarrow> pyval \<Rightarrow> pyval \<Rightarrow> error + string" where
  "image_cmd env title options =
     (let options = (if \<not> py_truth options then Str [] else options) in
      and_then (py_dict options) (\<lambda>d.
      let options = join '','' (map (\<lambda>(k, v). to_str env k @ ''='' @ to_str env v)
                                 (dict_items env d));
          out = ''\<newline>'' @ bs @ ''frame[shrink] {''
      in
      and_then (py_split title CHR '' '') (\<lambda>parts.
      and_then (index_list parts 1) (\<lambda>path.
      let out = out @ ''\<newline>'' @ tab @ bs @ ''pgfimage['' @ options @ '']{'' @ path @ ''}'';
          out = out @ ''\<newline>}''
      in Inr out))))"

definition frame :: "('f, 'lx) env \<Rightarrow> pyval \<Rightarrow> pyval \<Rightarrow> error + string" where
  "frame env title items =
     and_then (py_startswith title ''include'') (\<lambda>is_include.
     if is_include then code env title
     else
       and_then (py_startswith title ''image'') (\<lambda>is_image.
       if is_image then image_cmd env title items
       else
         (let out = ''\<newline>'' @ bs @ ''frame {'' in
          and_then (escape_output title) (\<lambda>t.
          let out = out @ ''\<newline>'' @ tab @ bs @ ''frametitle{'' @ t @ ''}'' in
          and_then (itemize items) (\<lambda>l.
          let out = out @ l;
              out = out @ ''\<newline>}''
          in Inr out)))))"

subsection \<open>\<^verbatim>\<open>header\<close>, \<^verbatim>\<open>footer\<close>\<close>

definition header :: "('f, 'lx) env \<Rightarrow> (pyval \<times> pyval) list \<Rightarrow> error + string" where
  "header env metas =
     (let out = bs @ ''documentclass[slidestop,red]{beamer}'';
          out = out @ ''\<newline>'' @ bs @ ''usepackage[utf8]{inputenc}'';
          out = out @ ''\<newline>'' @ bs @ ''usepackage{fancyvrb,color}\<newline>\<newline>''
      in
      and_then (get_style_defs env (dict_get metas ''highlight_style'' (Str ''default'')))
        (\<lambda>defs.
      let out = out @ defs;
          out = out @ ''\<newline>\<newline>'' @ bs @ ''usetheme{Antibes}'';
          out = out @ ''\<newline>'' @ bs @ ''setbeamertemplate{footline}[frame number]'';
          out = out @ ''\<newline>'' @ bs @ ''usecolortheme{lily}'';
          out = out @ ''\<newline>'' @ bs @ ''beamertemplateshadingbackground{blue!5}{yellow!10}''
      in
      and_then (percent_s env (dict_get metas ''title'' (Str ''Example Presentation'')))
        (\<lambda>title.
      let out = out @ ''\<newline>\<newline>'' @ bs @ ''title{'' @ title @ ''}'' in
      and_then (percent_s env (dict_get metas ''author'' (Str ''Arthur Koziel'')))
        (\<lambda>author.
      let out = out @ ''\<newline>'' @ bs @ ''author{'' @ author @ ''}'' in
      and_then (percent_s env (dict_get metas ''institute'' (Str '''')))
        (\<lambda>institute.
      let out = out @ ''\<newline>'' @ bs @ ''institute{'' @ institute @ ''}'' in
      and_then (percent_s env (dict_get metas ''date'' (Str (bs @ ''today''))))
        (\<lambda>date.
      let out = out @ ''\<newline>'' @ bs @ ''date{'' @ date @ ''}'';
          out = out @ ''\<newline>\<newline>'' @ bs @ ''begin{document}'';
          out = out @ ''\<newline>\<newline>'' @ bs @ ''frame{'' @ bs @ ''titlepage}''
      in
      if py_truth (dict_get metas ''outline'' (Bool True)) then
        (let out = out @ ''\<newline>\<newline>'' @ bs @ ''section*{Outline}'';
             out = out @ ''\<newline>'' @ bs @ ''frame {'';
             out = out @ ''\<newline>'' @ tab @ bs @ ''frametitle{Outline}'';
             out = out @ ''\<newline>'' @ tab @ bs @ ''tableofcontents'';
             out = out @ ''\<newline>}'';
             out = out @ ''\<newline>\<newline>'' @ bs @ ''AtBeginSection[] {'';
             out = out @ ''\<newline>'' @ tab @ bs @ ''frame{'';
             out = out @ ''\<newline>'' @ tab @ tab @ bs @ ''frametitle{Outline}'';
             out = out @ ''\<newline>'' @ tab @ tab @ bs @ ''tableofcontents[currentsection]'';
             out = out @ ''\<newline>'' @ tab @ ''}'';
             out = out @ ''\<newline>}''
         in Inr out)
      else Inr out))))))"

definition footer :: string where
  "footer = ''\<newline>'' @ bs @ ''end{document}''"

subsection \<open>\<^verbatim>\<open>main\<close>\<close>

text \<open>
  The three nested loops rebind the name \<^verbatim>\<open>doc\<close>; each loop iterates over the value the
  name had when the loop began.
\<close>

definition main :: "('f, 'lx) env \<Rightarrow> 'f \<Rightarrow> error + string" where
  "main env file =
     and_then (yaml_load env file) (\<lambda>doc.
     and_then (py_index doc 0) (\<lambda>first.
     and_then (py_index first 0) (\<lambda>key.
     and_then
       (if key = Str ''metas'' then
          and_then (py_index doc 0) (\<lambda>first.
          and_then (py_index first 1) (\<lambda>v.
          and_then (py_dict v) (\<lambda>metas.
          and_then (py_del0 doc) (\<lambda>doc. Inr (metas, doc)))))
        else Inr ([], doc)) (\<lambda>(metas, doc).
     and_then (header env metas) (\<lambda>out.
     and_then (py_iter doc) (\<lambda>entries.
     and_then (for_each entries (\<lambda>entry out.
         and_then (py_unpack2 entry) (\<lambda>(sections, doc).
         and_then (section_cmd sections) (\<lambda>s.
         and_then (py_iter doc) (\<lambda>entries.
         for_each entries (\<lambda>entry out.
           and_then (py_unpack2 entry) (\<lambda>(subsections, doc).
           and_then (subsection_cmd subsections) (\<lambda>s.
           and_then (py_iter doc) (\<lambda>entries.
           for_each entries (\<lambda>entry out.
             and_then (py_unpack2 entry) (\<lambda>(frames, items).
             and_then (frame env frames items) (\<lambda>f.
             Inr (out @ f)))) (out @ s))))) (out @ s))))) out) (\<lambda>out.
     let out = out @ footer in
     Inr (encode_utf8 out))))))))"

section \<open>The notions of the specification\<close>

subsection \<open>Escaper\<close>

text \<open>The reserved markup characters, and the escaped form of a text: each reserved
  character prefixed with a backslash, every other character as it is.\<close>

definition reserved :: "char set" where
  "reserved = set ''&$%#_{}''"

definition escaped :: "string \<Rightarrow> string" where
  "escaped s = concat (map (\<lambda>c. if c \<in> reserved then [CHR 0x5C, c] else [c]) s)"

text \<open>No unescaped occurrence of a reserved character: each one is immediately preceded by a
  backslash.\<close>

definition guarded :: "string \<Rightarrow> bool" where
  "guarded out = (\<forall>i<length out. out ! i \<in> reserved \<longrightarrow> 0 < i \<and> out ! (i - 1) = CHR 0x5C)"

subsection \<open>Items and the List Renderer\<close>

text \<open>
  An item is a text value or a nested structure, a label with its own item list. The loader
  delivers the nested item as a single-element wrapper (the list of pairs of a one-entry
  mapping) around the pair of label and nested list.
\<close>

datatype item = Leaf string | Nested string "item list"

fun item_value :: "item \<Rightarrow> pyval" where
  "item_value (Leaf t) = Str t"
| "item_value (Nested label sub) = List [Tuple [Str label, List (map item_value sub)]]"

text \<open>The list markup as the specification words it: the list is opened, every item gives
  one bulleted entry in order, a nested item's entry is followed by the markup of its
  nested list, and the list is closed.\<close>

fun render_item :: "item \<Rightarrow> string" where
  "render_item (Leaf t) = ''\<newline>'' @ tab @ bs @ ''item '' @ escaped t"
| "render_item (Nested label sub) =
     ''\<newline>'' @ tab @ bs @ ''item '' @ escaped label
     @ ''\<newline>'' @ tab @ bs @ ''begin{itemize}[<+-| alert@+>]''
     @ concat (map render_item sub)
     @ ''\<newline>'' @ tab @ bs @ ''end{itemize}''"

definition render_list :: "item list \<Rightarrow> string" where
  "render_list items =
     ''\<newline>'' @ tab @ bs @ ''begin{itemize}[<+-| alert@+>]''
     @ concat (map render_item items)
     @ ''\<newline>'' @ tab @ bs @ ''end{itemize}''"

subsection \<open>Frame titles\<close>

text \<open>The three renderings of a frame, and the one that the conditions of \<open>frame\<close> select
  for a title.\<close>

datatype rendering = CodeFrame | ImageFrame | NormalFrame

definition selected :: "string \<Rightarrow> rendering" where
  "selected title =
     (if startswith title ''include'' then CodeFrame
      else if startswith title ''image'' then ImageFrame
      else NormalFrame)"

text \<open>The whitespace-delimited tokens of a title, as the specification's directive grammar
  reads it: runs of whitespace separate, and there is no empty token.\<close>

definition whitespace :: "char set" where
  "whitespace = {CHR '' '', CHR 0x09, CHR 0x0A, CHR 0x0B, CHR 0x0C, CHR 0x0D}"

fun tokens_from :: "string \<Rightarrow> string \<Rightarrow> string list" where
  "tokens_from cur [] = (if cur = [] then [] else [cur])"
| "tokens_from cur (c # cs) =
     (if c \<in> whitespace then (if cur = [] then tokens_from [] cs else cur # tokens_from [] cs)
      else tokens_from (cur @ [c]) cs)"

definition tokens :: "string \<Rightarrow> string list" where
  "tokens title = tokens_from [] title"

subsection \<open>Documents\<close>

text \<open>
  A Document is an ordered sequence of (section-title, section-body) pairs, a section body
  one of (subsection-title, subsection-body) pairs, a subsection body one of
  (frame-title, items) pairs; the first pair of a Document may be the metadata pair. The
  loader delivers every mapping as the list of its pairs.
\<close>

type_synonym frame_entry = "pyval \<times> pyval"
type_synonym subsection_entry = "pyval \<times> frame_entry list"
type_synonym section_entry = "pyval \<times> subsection_entry list"

definition frame_value :: "frame_entry \<Rightarrow> pyval" where
  "frame_value f = Tuple [fst f, snd f]"

definition subsection_value :: "subsection_entry \<Rightarrow> pyval" where
  "subsection_value s = Tuple [fst s, List (map frame_value (snd s))]"

definition section_value :: "section_entry \<Rightarrow> pyval" where
  "section_value s = Tuple [fst s, List (map subsection_value (snd s))]"

definition document_value :: "pyval option \<Rightarrow> section_entry list \<Rightarrow> pyval" where
  "document_value metas secs =
     List ((case metas of None \<Rightarrow> [] | Some m \<Rightarrow> [Tuple [Str ''metas'', m]])
           @ map section_value secs)"

definition frames_of :: "section_entry list \<Rightarrow> frame_entry list" where
  "frames_of secs = concat (map (\<lambda>s. concat (map snd (snd s))) secs)"

text \<open>The pieces of markup in the order the specification lists them, each one the result
  of the function that emits it; \<open>emit\<close> joins them, and fails with the first failure.\<close>

fun emit :: "(error + string) list \<Rightarrow> error + string" where
  "emit [] = Inr []"
| "emit (p # ps) = and_then p (\<lambda>x. and_then (emit ps) (\<lambda>r. Inr (x @ r)))"

definition subsection_markup :: "('f, 'lx) env \<Rightarrow> subsection_entry \<Rightarrow> (error + string) list" where
  "subsection_markup env s =
     subsection_cmd (fst s) # map (\<lambda>f. frame env (fst f) (snd f)) (snd s)"

definition section_markup :: "('f, 'lx) env \<Rightarrow> section_entry \<Rightarrow> (error + string) list" where
  "section_markup env s = section_cmd (fst s) # concat (map (subsection_markup env) (snd s))"

definition document_markup ::
  "('f, 'lx) env \<Rightarrow> (pyval \<times> pyval) list \<Rightarrow> section_entry list \<Rightarrow> (error + string) list" where
  "document_markup env metas secs =
     header env metas # concat (map (section_markup env) secs) @ [Inr footer]"

subsection \<open>An environment to run the program in\<close>

text \<open>
  Five input files: the Document of the specification's example, the same Document under a
  second name, the empty Document, a Document with a code frame whose file is missing, and
  one with a code frame whose file is readable and of a type no lexer is registered for.
  Lexers are registered for names ending in \<^verbatim>\<open>.py\<close>; two files can be read.
\<close>

definition demo_document :: pyval where
  "demo_document =
     List [Tuple [Str ''metas'', List [Tuple [Str ''title'', Str ''R&D'']]],
           Tuple [Str ''Intro'', List [Tuple [Str ''Basics'',
             List [Tuple [Str ''Welcome'', List [Str ''Hi there'']]]]]]]"

definition code_document :: "string \<Rightarrow> pyval" where
  "code_document title =
     List [Tuple [Str ''Intro'', List [Tuple [Str ''Basics'',
             List [Tuple [Str title, NoneV]]]]]]"

definition demo_files :: "(string \<times> pyval) list" where
  "demo_files =
     [(''demo.yml'', demo_document),
      (''copy.yml'', demo_document),
      (''empty.yml'', List []),
      (''missing.yml'', code_document ''include gone.py''),
      (''unknown.yml'', code_document ''include notes.xyz'')]"

definition demo_env :: "(string, string) env" where
  "demo_env = \<lparr>
     yaml_load = (\<lambda>file. case map_of demo_files file of
                    Some doc \<Rightarrow> Inr doc
                  | None \<Rightarrow> Inl (ExternalError ''YAMLError'')),
     get_lexer_for_filename = (\<lambda>name.
        if drop (length name - 3) name = ''.py'' then Inr ''python''
        else Inl (ExternalError ''ClassNotFound'')),
     read_file = [''path/to/file.py'' \<mapsto> ''print 1'', ''notes.xyz'' \<mapsto> ''plain''],
     highlight = (\<lambda>src lexer. Inr (''\<newline>'' @ src)),
     get_style_defs = (\<lambda>style. Inr []),
     str_of = (\<lambda>v. []),
     dict_items = (\<lambda>d. d) \<rparr>"

section \<open>Properties\<close>

subsection \<open>The Escaper\<close>

text \<open>A one-character key: \<open>replace\<close> works character by character.\<close>

lemma replace_char_Cons:
  "replace (c # cs) [k] new = (if c = k then new else [c]) @ replace cs [k] new"
  by (simp add: startswith_def)

lemma replace_char: "replace s [k] new = concat (map (\<lambda>c. if c = k then new else [c]) s)"
  by (induction s) (simp_all add: startswith_def)

lemma replace_char_append:
  "replace (xs @ ys) [k] new = replace xs [k] new @ replace ys [k] new"
  by (simp add: replace_char)

lemma replace_char_concat:
  "replace (concat (map g s)) [k] new = concat (map (\<lambda>c. replace (g c) [k] new) s)"
  by (induction s) (simp_all add: replace_char_append)

lemma escape_with_snoc:
  "escape_with (entries @ [(i, j)]) text = replace (escape_with entries text) i j"
  by (simp add: escape_with_def)

lemma escape_with_entries:
  "distinct entries \<Longrightarrow> set entries \<subseteq> set dic \<Longrightarrow>
   escape_with entries s =
     concat (map (\<lambda>c. if ([c], [CHR 0x5C, c]) \<in> set entries then [CHR 0x5C, c] else [c]) s)"
proof (induction entries arbitrary: s rule: rev_induct)
  case Nil
  then show ?case by (simp add: escape_with_def)
next
  case (snoc e entries)
  obtain i j where e: "e = (i, j)" by (cases e)
  from snoc.prems e have "(i, j) \<in> set dic" by simp
  then obtain k where k: "i = [k]" "j = [CHR 0x5C, k]" "k \<noteq> CHR 0x5C"
    by (auto simp: dic_def)
  have new: "([k], [CHR 0x5C, k]) \<notin> set entries"
    using snoc.prems e k by simp
  have IH: "escape_with entries s =
     concat (map (\<lambda>c. if ([c], [CHR 0x5C, c]) \<in> set entries then [CHR 0x5C, c] else [c]) s)"
    using snoc by simp
  show ?case
    unfolding e escape_with_snoc IH k replace_char_concat
    using new k(3) by (intro arg_cong[where f=concat] map_cong) (auto simp: startswith_def)
qed

lemma escape_with_dic: "escape_with dic text = escaped text"
proof -
  have "distinct dic" by (simp add: dic_def)
  then have "escape_with dic text =
     concat (map (\<lambda>c. if ([c], [CHR 0x5C, c]) \<in> set dic then [CHR 0x5C, c] else [c]) text)"
    by (rule escape_with_entries) simp
  moreover have "\<And>c. ([c], [CHR 0x5C, c]) \<in> set dic \<longleftrightarrow> c \<in> reserved"
    by (auto simp: dic_def reserved_def)
  ultimately show ?thesis by (simp add: escaped_def)
qed

lemma escape_with_order:
  assumes "mset entries = mset dic"
  shows "escape_with entries s = escape_with dic s"
proof -
  have d: "distinct dic" by (simp add: dic_def)
  have "distinct entries" using assms d by (metis mset_eq_imp_distinct_iff)
  moreover have s: "set entries = set dic" using assms by (rule mset_eq_setD)
  ultimately show ?thesis
    using escape_with_entries[of entries s] escape_with_entries[of dic s] d by simp
qed


lemma escape_output_Str: "escape_output (Str s) = Inr (escaped s)"
  by (simp add: escape_with_dic)

lemma guarded_append:
  assumes "guarded xs" "guarded ys"
  shows "guarded (xs @ ys)"
  unfolding guarded_def
proof (intro allI impI)
  fix i
  assume i: "i < length (xs @ ys)" and r: "(xs @ ys) ! i \<in> reserved"
  show "0 < i \<and> (xs @ ys) ! (i - 1) = CHR 0x5C"
  proof (cases "i < length xs")
    case True
    then have "xs ! i \<in> reserved" using r by (simp add: nth_append)
    with assms(1) True have "0 < i \<and> xs ! (i - 1) = CHR 0x5C" by (simp add: guarded_def)
    moreover have "i - 1 < length xs" using True by simp
    ultimately show ?thesis by (simp add: nth_append)
  next
    case False
    define j where "j = i - length xs"
    have j: "j < length ys" "ys ! j \<in> reserved"
      using False i r by (simp_all add: j_def nth_append)
    with assms(2) have "0 < j \<and> ys ! (j - 1) = CHR 0x5C" by (simp add: guarded_def)
    then show ?thesis using False by (auto simp: j_def nth_append)
  qed
qed

lemma guarded_escaped: "guarded (escaped s)"
proof (induction s)
  case Nil
  then show ?case by (simp add: escaped_def guarded_def)
next
  case (Cons c s)
  have "guarded (if c \<in> reserved then [CHR 0x5C, c] else [c])"
    by (auto simp: guarded_def less_Suc_eq reserved_def)
  from guarded_append[OF this Cons.IH] show ?case by (simp add: escaped_def)
qed

lemma escaped_unchanged: "set s \<inter> reserved = {} \<Longrightarrow> escaped s = s"
  by (induction s) (auto simp: escaped_def)

lemma length_escaped: "length (escaped s) = length s + length (filter (\<lambda>c. c \<in> reserved) s)"
  by (induction s) (auto simp: escaped_def)

lemma filter_escaped: "filter (\<lambda>c. c \<in> reserved) (escaped s) = filter (\<lambda>c. c \<in> reserved) s"
  by (induction s) (auto simp: escaped_def reserved_def)

lemma escaped_twice: "escaped (escaped s) = escaped s \<longleftrightarrow> set s \<inter> reserved = {}"
proof
  assume "escaped (escaped s) = escaped s"
  then have "length (escaped (escaped s)) = length (escaped s)" by simp
  then have "filter (\<lambda>c. c \<in> reserved) s = []"
    by (simp add: length_escaped[of "escaped s"] filter_escaped)
  then show "set s \<inter> reserved = {}" by (auto simp: filter_empty_conv)
next
  assume "set s \<inter> reserved = {}"
  then show "escaped (escaped s) = escaped s" by (simp add: escaped_unchanged)
qed

text \<open>
  C5. For every text, the Escaper returns; in its output every one of the characters
  \<^verbatim>\<open>& $ % # _ { }\<close> is immediately preceded by a backslash; and a text with none of these
  characters (the empty text among them) is returned unchanged.
\<close>

theorem escape_output_guards_reserved:
  "\<exists>out. escape_output (Str s) = Inr out
     \<and> (\<forall>i<length out. out ! i \<in> reserved \<longrightarrow> 0 < i \<and> out ! (i - 1) = CHR 0x5C)
     \<and> (set s \<inter> reserved = {} \<longrightarrow> out = s)"
  using guarded_escaped[of s] escaped_unchanged[of s]
  by (simp add: escape_with_dic guarded_def)

text \<open>The witness: \<^verbatim>\<open>x_y\<close> has a reserved character at position 2 of its output, after a
  backslash; \<^verbatim>\<open>abc\<close> has none and is returned as it is.\<close>

theorem escape_output_guards_reserved_witness:
  "escape_output (Str ''x_y'') = Inr (''x'' @ bs @ ''_y'')
     \<and> (''x'' @ bs @ ''_y'') ! 2 \<in> reserved \<and> (''x'' @ bs @ ''_y'') ! (2 - 1) = CHR 0x5C
     \<and> set ''abc'' \<inter> reserved = {} \<and> escape_output (Str ''abc'') = Inr ''abc''"
proof -
  obtain out where out: "escape_output (Str ''x_y'') = Inr out"
    and g: "\<forall>i<length out. out ! i \<in> reserved \<longrightarrow> 0 < i \<and> out ! (i - 1) = CHR 0x5C"
    using escape_output_guards_reserved[of "''x_y''"] by blast
  have v: "escape_output (Str ''x_y'') = Inr (''x'' @ bs @ ''_y'')"
    by (simp add: escape_with_dic escaped_def reserved_def)
  with out have o: "out = ''x'' @ bs @ ''_y''" by simp
  have r: "(''x'' @ bs @ ''_y'') ! 2 \<in> reserved" by (simp add: reserved_def)
  have l: "2 < length (''x'' @ bs @ ''_y'')" by simp
  from g o have "2 < length (''x'' @ bs @ ''_y'') \<longrightarrow> (''x'' @ bs @ ''_y'') ! 2 \<in> reserved
      \<longrightarrow> 0 < (2::nat) \<and> (''x'' @ bs @ ''_y'') ! (2 - 1) = CHR 0x5C" by blast
  with l r have p: "(''x'' @ bs @ ''_y'') ! (2 - 1) = CHR 0x5C" by blast
  obtain out' where out': "escape_output (Str ''abc'') = Inr out'"
    and u: "set ''abc'' \<inter> reserved = {} \<longrightarrow> out' = ''abc''"
    using escape_output_guards_reserved[of "''abc''"] by blast
  have n: "set ''abc'' \<inter> reserved = {}" by (simp add: reserved_def)
  with u out' have "escape_output (Str ''abc'') = Inr ''abc''" by blast
  with v r p n show ?thesis by blast
qed

text \<open>
  C6 as stated fails. An already escaped sequence, a backslash before \<^verbatim>\<open>&\<close>, is not left
  unchanged: it gets a second backslash. And the Escaper applied to its own output for
  \<^verbatim>\<open>&\<close> changes that output.
\<close>

theorem escape_output_not_idempotent:
  "escape_output (Str (bs @ ''&'')) = Inr (bs @ bs @ ''&'')
     \<and> escape_output (Str ''&'') = Inr (bs @ ''&'')
     \<and> and_then (escape_output (Str ''&'')) (\<lambda>out. escape_output (Str out)) \<noteq> escape_output (Str ''&'')"
  by (simp add: escape_with_dic escaped_def reserved_def and_then_def)

text \<open>
  C6, amended. The Escaper prefixes every reserved character of its input with a backslash,
  whatever precedes it; applying the Escaper to its own output changes nothing exactly when
  the input contains no reserved character.
\<close>

theorem escape_output_twice:
  "escape_output (Str s) = Inr (concat (map (\<lambda>c. if c \<in> reserved then [CHR 0x5C, c] else [c]) s))
     \<and> (and_then (escape_output (Str s)) (\<lambda>out. escape_output (Str out)) = escape_output (Str s)
          \<longleftrightarrow> set s \<inter> reserved = {})"
  using escaped_twice[of s] by (simp add: escape_with_dic and_then_def) (simp add: escaped_def)

text \<open>The witness: both sides of the equivalence, at \<^verbatim>\<open>a b\<close> and at \<^verbatim>\<open>a#b\<close>.\<close>

theorem escape_output_twice_witness:
  "(and_then (escape_output (Str ''a b'')) (\<lambda>out. escape_output (Str out)) = escape_output (Str ''a b'')
      \<and> set ''a b'' \<inter> reserved = {})
   \<and> (and_then (escape_output (Str ''a#b'')) (\<lambda>out. escape_output (Str out)) \<noteq> escape_output (Str ''a#b'')
      \<and> set ''a#b'' \<inter> reserved \<noteq> {})"
proof -
  have a: "set ''a b'' \<inter> reserved = {}" by (simp add: reserved_def)
  have b: "set ''a#b'' \<inter> reserved \<noteq> {}" by (simp add: reserved_def)
  from escape_output_twice[of "''a b''"] a
  have 1: "and_then (escape_output (Str ''a b'')) (\<lambda>out. escape_output (Str out))
      = escape_output (Str ''a b'')" by blast
  from escape_output_twice[of "''a#b''"] b
  have 2: "and_then (escape_output (Str ''a#b'')) (\<lambda>out. escape_output (Str out))
      \<noteq> escape_output (Str ''a#b'')" by blast
  from 1 2 a b show ?thesis by blast
qed

subsection \<open>The List Renderer\<close>

lemma for_each_collect:
  assumes "\<And>x out. x \<in> set xs \<Longrightarrow> body (f x) out = Inr (out @ g x)"
  shows "for_each (map f xs) body out = Inr (out @ concat (map g xs))"
  using assms by (induction xs arbitrary: out) (simp_all add: and_then_def)

lemma itemize_items: "itemize (List (map item_value items)) = Inr (render_list items)"
proof -
  define body where "body = (\<lambda>item out.
         if isinstance_list item then
           and_then (py_iter item) (\<lambda>js. for_each js (\<lambda>i out.
             and_then (py_index item 0) (\<lambda>p.
             and_then (py_index p 0) (\<lambda>label.
             and_then (escape_output label) (\<lambda>t.
             and_then (py_index item 0) (\<lambda>q.
             and_then (py_index q 1) (\<lambda>nested.
             and_then (itemize nested) (\<lambda>sub.
             Inr (out @ ''\<newline>'' @ tab @ bs @ ''item '' @ t @ sub)))))))) out)
         else
           and_then (escape_output item) (\<lambda>t.
           Inr (out @ ''\<newline>'' @ tab @ bs @ ''item '' @ t)))"
  have unfold: "itemize v =
     and_then (py_iter v) (\<lambda>xs.
     and_then (for_each xs body (''\<newline>'' @ tab @ bs @ ''begin{itemize}[<+-| alert@+>]''))
     (\<lambda>out. Inr (out @ ''\<newline>'' @ tab @ bs @ ''end{itemize}'')))" for v
    unfolding body_def by (rule itemize.simps)
  have list: "itemize (List (map item_value xs)) = Inr (render_list xs)"
    if "\<And>x out. x \<in> set xs \<Longrightarrow> body (item_value x) out = Inr (out @ render_item x)" for xs
    using for_each_collect[of xs body item_value render_item, OF that]
    by (simp add: unfold and_then_def render_list_def)
  have step: "body (item_value x) out = Inr (out @ render_item x)" for x out
  proof (induction x arbitrary: out)
    case (Leaf t)
    show ?case by (simp add: body_def and_then_def escape_with_dic)
  next
    case (Nested label sub)
    have sub: "itemize (List (map item_value sub)) = Inr (render_list sub)"
      by (rule list) (rule Nested.IH)
    show ?case
      by (simp add: body_def and_then_def index_list_def escape_with_dic sub render_list_def)
  qed
  show ?thesis by (rule list) (rule step)
qed

text \<open>
  C4. For an item sequence of text values and well-formed nested items, the List Renderer
  returns the markup of the specification: the list opened, one bulleted entry per item in
  input order, the list closed. For text items only, that is one entry per text; the entry of
  a nested item (a single-element wrapper around a pair of label and nested list) is the
  escaped label immediately followed by the full rendering of the nested list.
\<close>

theorem itemize_renders_items:
  "itemize (List (map item_value items)) = Inr (render_list items)
   \<and> render_list (map Leaf ts) =
       ''\<newline>'' @ tab @ bs @ ''begin{itemize}[<+-| alert@+>]''
       @ concat (map (\<lambda>t. ''\<newline>'' @ tab @ bs @ ''item '' @ escaped t) ts)
       @ ''\<newline>'' @ tab @ bs @ ''end{itemize}''
   \<and> render_item (Nested label sub) =
       ''\<newline>'' @ tab @ bs @ ''item '' @ escaped label @ render_list sub"
  by (simp add: itemize_items render_list_def comp_def)

text \<open>The example of the specification: label \<^verbatim>\<open>Fruits\<close> with the sub-items \<^verbatim>\<open>Apple\<close> and
  \<^verbatim>\<open>Banana\<close>.\<close>

theorem itemize_renders_items_witness:
  "itemize (List [List [Tuple [Str ''Fruits'', List [Str ''Apple'', Str ''Banana'']]]]) =
     Inr (''\<newline>'' @ tab @ bs @ ''begin{itemize}[<+-| alert@+>]''
          @ ''\<newline>'' @ tab @ bs @ ''item Fruits''
          @ ''\<newline>'' @ tab @ bs @ ''begin{itemize}[<+-| alert@+>]''
          @ ''\<newline>'' @ tab @ bs @ ''item Apple''
          @ ''\<newline>'' @ tab @ bs @ ''item Banana''
          @ ''\<newline>'' @ tab @ bs @ ''end{itemize}''
          @ ''\<newline>'' @ tab @ bs @ ''end{itemize}'')"
  using itemize_renders_items[of "[Nested ''Fruits'' [Leaf ''Apple'', Leaf ''Banana'']]" "[]" "[]" "[]"]
  by (simp add: render_list_def escaped_def reserved_def)


subsection \<open>The Document Assembler\<close>

lemma and_then_Inr [simp]: "and_then (Inr x) f = f x"
  by (simp add: and_then_def)

lemma and_then_Inl [simp]: "and_then (Inl e) f = Inl e"
  by (simp add: and_then_def)

lemma py_unpack2_Tuple [simp]: "py_unpack2 (Tuple [a, b]) = Inr (a, b)"
  by (simp add: py_unpack2_def)

lemma emit_append:
  "emit (ps @ qs) = and_then (emit ps) (\<lambda>x. and_then (emit qs) (\<lambda>y. Inr (x @ y)))"
proof (induction ps)
  case Nil
  show ?case by (cases "emit qs") simp_all
next
  case (Cons p ps)
  show ?case
    by (cases p; cases "emit ps"; cases "emit qs") (simp_all add: Cons.IH)
qed

lemma emit_concat: "emit (map (\<lambda>x. emit (h x)) xs) = emit (concat (map h xs))"
proof (induction xs)
  case Nil
  show ?case by simp
next
  case (Cons x xs)
  show ?case
    by (cases "emit (h x)"; cases "emit (concat (map h xs))")
       (simp_all add: emit_append Cons.IH[symmetric])
qed

lemma for_each_emit:
  assumes "\<And>x out. body (f x) out = and_then (g x) (\<lambda>r. Inr (out @ r))"
  shows "for_each (map f xs) body out = and_then (emit (map g xs)) (\<lambda>r. Inr (out @ r))"
proof (induction xs arbitrary: out)
  case Nil
  show ?case by simp
next
  case (Cons x xs)
  show ?case
    by (cases "g x"; cases "emit (map g xs)") (simp_all add: assms Cons.IH)
qed

lemma frames_loop:
  "for_each (map frame_value fs) (\<lambda>entry out.
             and_then (py_unpack2 entry) (\<lambda>(frames, items).
             and_then (frame env frames items) (\<lambda>f.
             Inr (out @ f)))) out
   = and_then (emit (map (\<lambda>f. frame env (fst f) (snd f)) fs)) (\<lambda>r. Inr (out @ r))"
  by (rule for_each_emit) (simp add: frame_value_def case_prod_beta)

lemma subsections_loop:
  "for_each (map subsection_value ss) (\<lambda>entry out.
           and_then (py_unpack2 entry) (\<lambda>(subsections, doc).
           and_then (subsection_cmd subsections) (\<lambda>s.
           and_then (py_iter doc) (\<lambda>entries.
           for_each entries (\<lambda>entry out.
             and_then (py_unpack2 entry) (\<lambda>(frames, items).
             and_then (frame env frames items) (\<lambda>f.
             Inr (out @ f)))) (out @ s))))) out
   = and_then (emit (concat (map (subsection_markup env) ss))) (\<lambda>r. Inr (out @ r))"
proof -
  have "for_each (map subsection_value ss) (\<lambda>entry out.
           and_then (py_unpack2 entry) (\<lambda>(subsections, doc).
           and_then (subsection_cmd subsections) (\<lambda>s.
           and_then (py_iter doc) (\<lambda>entries.
           for_each entries (\<lambda>entry out.
             and_then (py_unpack2 entry) (\<lambda>(frames, items).
             and_then (frame env frames items) (\<lambda>f.
             Inr (out @ f)))) (out @ s))))) out
   = and_then (emit (map (\<lambda>s. emit (subsection_markup env s)) ss)) (\<lambda>r. Inr (out @ r))"
  proof (rule for_each_emit)
    fix x :: subsection_entry and out
    show "and_then (py_unpack2 (subsection_value x)) (\<lambda>(subsections, doc).
           and_then (subsection_cmd subsections) (\<lambda>s.
           and_then (py_iter doc) (\<lambda>entries.
           for_each entries (\<lambda>entry out.
             and_then (py_unpack2 entry) (\<lambda>(frames, items).
             and_then (frame env frames items) (\<lambda>f.
             Inr (out @ f)))) (out @ s))))
       = and_then (emit (subsection_markup env x)) (\<lambda>r. Inr (out @ r))"
      by (cases "subsection_cmd (fst x)";
          cases "emit (map (\<lambda>f. frame env (fst f) (snd f)) (snd x))")
         (simp_all add: subsection_value_def subsection_markup_def frames_loop)
  qed
  then show ?thesis by (simp add: emit_concat)
qed

lemma sections_loop:
  "for_each (map section_value secs) (\<lambda>entry out.
         and_then (py_unpack2 entry) (\<lambda>(sections, doc).
         and_then (section_cmd sections) (\<lambda>s.
         and_then (py_iter doc) (\<lambda>entries.
         for_each entries (\<lambda>entry out.
           and_then (py_unpack2 entry) (\<lambda>(subsections, doc).
           and_then (subsection_cmd subsections) (\<lambda>s.
           and_then (py_iter doc) (\<lambda>entries.
           for_each entries (\<lambda>entry out.
             and_then (py_unpack2 entry) (\<lambda>(frames, items).
             and_then (frame env frames items) (\<lambda>f.
             Inr (out @ f)))) (out @ s))))) (out @ s))))) out
   = and_then (emit (concat (map (section_markup env) secs))) (\<lambda>r. Inr (out @ r))"
proof -
  have "for_each (map section_value secs) (\<lambda>entry out.
         and_then (py_unpack2 entry) (\<lambda>(sections, doc).
         and_then (section_cmd sections) (\<lambda>s.
         and_then (py_iter doc) (\<lambda>entries.
         for_each entries (\<lambda>entry out.
           and_then (py_unpack2 entry) (\<lambda>(subsections, doc).
           and_then (subsection_cmd subsections) (\<lambda>s.
           and_then (py_iter doc) (\<lambda>entries.
           for_each entries (\<lambda>entry out.
             and_then (py_unpack2 entry) (\<lambda>(frames, items).
             and_then (frame env frames items) (\<lambda>f.
             Inr (out @ f)))) (out @ s))))) (out @ s))))) out
   = and_then (emit (map (\<lambda>s. emit (section_markup env s)) secs)) (\<lambda>r. Inr (out @ r))"
  proof (rule for_each_emit)
    fix x :: section_entry and out
    show "and_then (py_unpack2 (section_value x)) (\<lambda>(sections, doc).
         and_then (section_cmd sections) (\<lambda>s.
         and_then (py_iter doc) (\<lambda>entries.
         for_each entries (\<lambda>entry out.
           and_then (py_unpack2 entry) (\<lambda>(subsections, doc).
           and_then (subsection_cmd subsections) (\<lambda>s.
           and_then (py_iter doc) (\<lambda>entries.
           for_each entries (\<lambda>entry out.
             and_then (py_unpack2 entry) (\<lambda>(frames, items).
             and_then (frame env frames items) (\<lambda>f.
             Inr (out @ f)))) (out @ s))))) (out @ s))))
       = and_then (emit (section_markup env x)) (\<lambda>r. Inr (out @ r))"
      by (cases "section_cmd (fst x)";
          cases "emit (concat (map (subsection_markup env) (snd x)))")
         (simp_all add: section_value_def section_markup_def subsections_loop)
  qed
  then show ?thesis by (simp add: emit_concat)
qed

lemma emit_document:
  "emit (document_markup env metas secs) =
     and_then (header env metas) (\<lambda>h.
     and_then (emit (concat (map (section_markup env) secs))) (\<lambda>r. Inr (h @ r @ footer)))"
  by (cases "header env metas"; cases "emit (concat (map (section_markup env) secs))")
     (simp_all add: document_markup_def emit_append)

lemma main_with_metas:
  assumes "yaml_load env file = Inr (document_value (Some m) secs)"
  shows "main env file =
     and_then (py_dict m) (\<lambda>metas.
     and_then (emit (document_markup env metas secs)) (\<lambda>out. Inr (encode_utf8 out)))"
proof (cases "py_dict m")
  case (Inl e)
  then show ?thesis
    using assms by (simp add: main_def document_value_def index_list_def)
next
  case (Inr metas)
  then show ?thesis
    using assms
    by (cases "header env metas"; cases "emit (concat (map (section_markup env) secs))")
       (simp_all add: main_def document_value_def index_list_def sections_loop emit_document)
qed

lemma main_without_metas:
  assumes "yaml_load env file = Inr (document_value None secs)"
    and "secs \<noteq> []" and "fst (hd secs) \<noteq> Str ''metas''"
  shows "main env file =
     and_then (emit (document_markup env [] secs)) (\<lambda>out. Inr (encode_utf8 out))"
proof -
  have first: "index_list (map section_value secs) 0 = Inr (section_value (hd secs))"
    using assms(2) by (cases secs) (simp_all add: index_list_def)
  have key: "py_index (section_value (hd secs)) 0 = Inr (fst (hd secs))"
    by (simp add: section_value_def index_list_def)
  show ?thesis
    using assms(1,3)
    by (cases "header env []"; cases "emit (concat (map (section_markup env) secs))")
       (simp_all add: main_def document_value_def first key sections_loop emit_document)
qed

lemma main_empty:
  "yaml_load env file = Inr (List []) \<Longrightarrow> main env file = Inl IndexError"
  by (simp add: main_def index_list_def)

text \<open>
  C1. For a Document whose first entry has the key \<^verbatim>\<open>metas\<close>, the value of that entry becomes
  the Metadata Map and the entry is not traversed; the output is the UTF-8 encoding of, in
  order: the header for the Metadata Map, for each remaining section its heading followed,
  for each of its subsections, by the subsection heading followed by the Frame Dispatcher's
  output for each of its frames, and the footer. A step that fails makes the whole assembly
  fail with that step's error.
\<close>

theorem main_assembles_document:
  assumes "yaml_load env file = Inr (document_value (Some m) secs)"
  shows "main env file =
     and_then (py_dict m) (\<lambda>metas.
     and_then (emit (document_markup env metas secs)) (\<lambda>out. Inr (encode_utf8 out)))"
  using assms by (rule main_with_metas)

text \<open>The Document of the specification's example, run in \<open>demo_env\<close>.\<close>

lemma demo_load: "yaml_load demo_env ''demo.yml'' =
    Inr (document_value (Some (List [Tuple [Str ''title'', Str ''R&D'']]))
          [(Str ''Intro'', [(Str ''Basics'', [(Str ''Welcome'', List [Str ''Hi there''])])])])"
  by (simp add: demo_env_def demo_files_def demo_document_def document_value_def
      section_value_def subsection_value_def frame_value_def)

lemma demo_metas: "py_dict (List [Tuple [Str ''title'', Str ''R&D'']]) = Inr [(Str ''title'', Str ''R&D'')]"
  by (simp add: py_dict_def dict_entry_def)

lemma demo_frame: "frame env (Str ''Welcome'') (List [Str ''Hi there'']) =
    Inr (''\<newline>'' @ bs @ ''frame {'' @ ''\<newline>'' @ tab @ bs @ ''frametitle{Welcome}''
         @ ''\<newline>'' @ tab @ bs @ ''begin{itemize}[<+-| alert@+>]''
         @ ''\<newline>'' @ tab @ bs @ ''item Hi there''
         @ ''\<newline>'' @ tab @ bs @ ''end{itemize}'' @ ''\<newline>}'')"
  using itemize_items[of "[Leaf ''Hi there'']"]
  by (simp add: frame_def startswith_def escape_with_dic escaped_def reserved_def render_list_def)

lemma demo_header: "\<exists>h. header demo_env [(Str ''title'', Str ''R&D'')] = Inr h"
  by (simp add: header_def demo_env_def dict_get_def)

theorem main_assembles_document_witness:
  "\<exists>h. header demo_env [(Str ''title'', Str ''R&D'')] = Inr h
     \<and> main demo_env ''demo.yml'' =
        Inr (encode_utf8 (h
          @ ''\<newline>\<newline>'' @ bs @ ''section{Intro}''
          @ ''\<newline>'' @ bs @ ''subsection{Basics}''
          @ ''\<newline>'' @ bs @ ''frame {'' @ ''\<newline>'' @ tab @ bs @ ''frametitle{Welcome}''
          @ ''\<newline>'' @ tab @ bs @ ''begin{itemize}[<+-| alert@+>]''
          @ ''\<newline>'' @ tab @ bs @ ''item Hi there''
          @ ''\<newline>'' @ tab @ bs @ ''end{itemize}'' @ ''\<newline>}''
          @ ''\<newline>'' @ bs @ ''end{document}''))"
proof -
  obtain h where h: "header demo_env [(Str ''title'', Str ''R&D'')] = Inr h"
    using demo_header by blast
  have "main demo_env ''demo.yml'' =
     and_then (py_dict (List [Tuple [Str ''title'', Str ''R&D'']])) (\<lambda>metas.
     and_then (emit (document_markup demo_env metas
        [(Str ''Intro'', [(Str ''Basics'', [(Str ''Welcome'', List [Str ''Hi there''])])])]))
       (\<lambda>out. Inr (encode_utf8 out)))"
    using demo_load by (rule main_assembles_document)
  then have "main demo_env ''demo.yml'' =
        Inr (encode_utf8 (h
          @ ''\<newline>\<newline>'' @ bs @ ''section{Intro}''
          @ ''\<newline>'' @ bs @ ''subsection{Basics}''
          @ ''\<newline>'' @ bs @ ''frame {'' @ ''\<newline>'' @ tab @ bs @ ''frametitle{Welcome}''
          @ ''\<newline>'' @ tab @ bs @ ''begin{itemize}[<+-| alert@+>]''
          @ ''\<newline>'' @ tab @ bs @ ''item Hi there''
          @ ''\<newline>'' @ tab @ bs @ ''end{itemize}'' @ ''\<newline>}''
          @ ''\<newline>'' @ bs @ ''end{document}''))"
    by (simp add: demo_metas emit_document h section_markup_def subsection_markup_def
        section_cmd_def subsection_cmd_def escape_with_dic escaped_def reserved_def
        demo_frame footer_def)
  with h show ?thesis by blast
qed

text \<open>
  C9. For the empty Document the Document Assembler fails with an error, the
  \<^verbatim>\<open>IndexError\<close> of \<^verbatim>\<open>doc[0]\<close>, and produces no header-and-footer-only document.
\<close>

theorem main_empty_document:
  "yaml_load env file = Inr (document_value None []) \<Longrightarrow> main env file = Inl IndexError"
  by (simp add: main_empty document_value_def)

theorem main_empty_document_witness:
  "yaml_load demo_env ''empty.yml'' = Inr (document_value None [])
     \<and> main demo_env ''empty.yml'' = Inl IndexError"
proof -
  have l: "yaml_load demo_env ''empty.yml'' = Inr (document_value None [])"
    by (simp add: demo_env_def demo_files_def document_value_def)
  from l main_empty_document[OF l] show ?thesis by blast
qed

subsection \<open>Unreadable files\<close>

lemma emit_fails: "Inl e \<in> set ps \<Longrightarrow> \<exists>e'. emit ps = Inl e'"
proof (induction ps)
  case Nil
  then show ?case by simp
next
  case (Cons p ps)
  show ?case
  proof (cases p)
    case (Inl a)
    then show ?thesis by simp
  next
    case (Inr x)
    with Cons obtain e' where "emit ps = Inl e'" by auto
    with Inr show ?thesis by simp
  qed
qed

lemma emit_error_raised: "emit ps = Inl e \<Longrightarrow> Inl e \<in> set ps"
proof (induction ps)
  case Nil
  then show ?case by simp
next
  case (Cons p ps)
  show ?case
  proof (cases p)
    case (Inl a)
    with Cons.prems show ?thesis by simp
  next
    case (Inr x)
    with Cons.prems have "emit ps = Inl e" by (cases "emit ps") simp_all
    with Cons.IH show ?thesis by simp
  qed
qed

lemma frame_in_document_markup:
  assumes "(t, items) \<in> set (frames_of secs)"
  shows "frame env t items \<in> set (document_markup env metas secs)"
proof -
  from assms obtain s ss where s: "s \<in> set secs" "ss \<in> set (snd s)" "(t, items) \<in> set (snd ss)"
    by (auto simp: frames_of_def)
  then have "frame env t items \<in> set (subsection_markup env ss)"
    by (force simp: subsection_markup_def)
  with s have "frame env t items \<in> set (section_markup env s)"
    by (auto simp: section_markup_def)
  with s show ?thesis by (auto simp: document_markup_def)
qed

lemma code_unreadable:
  assumes "index_list (split t CHR '' '') 1 = Inr path" and "read_file env path = None"
  shows "code env (Str t) =
     Inl (if isl (get_lexer_for_filename env path) then NameError else IOError)"
  using assms by (cases "get_lexer_for_filename env path") (simp_all add: code_def)

text \<open>
  C7. When a Document holds a code-inclusion frame whose file cannot be opened, the Document
  Assembler returns an error and no output at all, neither a document without the frame nor
  the markup accumulated so far; the error it returns is, unmodified, the error of one of
  its steps. The frame itself fails with the \<^verbatim>\<open>IOError\<close> of \<^verbatim>\<open>open\<close>, or, when no lexer is
  registered for the file either, with the error of the lookup's handler, which comes
  first. (A first section titled \<^verbatim>\<open>metas\<close> is the metadata pair and is not traversed, hence
  the second hypothesis.)
\<close>

theorem unreadable_file_aborts:
  assumes "yaml_load env file = Inr (document_value metas secs)"
    and "metas = None \<longrightarrow> fst (hd secs) \<noteq> Str ''metas''"
    and "(Str t, items) \<in> set (frames_of secs)"
    and "startswith t ''include''"
    and "index_list (split t CHR '' '') 1 = Inr path"
    and "read_file env path = None"
  shows "(\<exists>e. main env file = Inl e
          \<and> ((\<exists>m. metas = Some m \<and> py_dict m = Inl e)
               \<or> (\<exists>ms. Inl e \<in> set (document_markup env ms secs))))
     \<and> frame env (Str t) items =
         Inl (if isl (get_lexer_for_filename env path) then NameError else IOError)"
proof -
  have f: "frame env (Str t) items =
      Inl (if isl (get_lexer_for_filename env path) then NameError else IOError)"
    using assms(4) code_unreadable[OF assms(5,6)] by (simp add: frame_def)
  have fails: "\<exists>e. emit (document_markup env ms secs) = Inl e
      \<and> Inl e \<in> set (document_markup env ms secs)" for ms
  proof -
    have "\<exists>e. emit (document_markup env ms secs) = Inl e"
      using frame_in_document_markup[OF assms(3), of env ms] f emit_fails by metis
    then show ?thesis using emit_error_raised by blast
  qed
  have "\<exists>e. main env file = Inl e
          \<and> ((\<exists>m. metas = Some m \<and> py_dict m = Inl e)
               \<or> (\<exists>ms. Inl e \<in> set (document_markup env ms secs)))"
  proof (cases metas)
    case None
    have "secs \<noteq> []" using assms(3) by (auto simp: frames_of_def)
    moreover have "fst (hd secs) \<noteq> Str ''metas''" using assms(2) None by simp
    ultimately have m: "main env file =
        and_then (emit (document_markup env [] secs)) (\<lambda>out. Inr (encode_utf8 out))"
      using assms(1) None by (simp add: main_without_metas)
    from fails[of "[]"] obtain e where "emit (document_markup env [] secs) = Inl e"
      and "Inl e \<in> set (document_markup env [] secs)" by blast
    with m have "main env file = Inl e \<and> (\<exists>ms. Inl e \<in> set (document_markup env ms secs))"
      by auto
    then show ?thesis by blast
  next
    case (Some m)
    then have m: "main env file =
       and_then (py_dict m) (\<lambda>metas.
       and_then (emit (document_markup env metas secs)) (\<lambda>out. Inr (encode_utf8 out)))"
      using assms(1) by (simp add: main_with_metas)
    show ?thesis
    proof (cases "py_dict m")
      case (Inl e)
      with m have "main env file = Inl e" by simp
      with Inl Some show ?thesis by blast
    next
      case (Inr ms)
      from fails[of ms] obtain e where "emit (document_markup env ms secs) = Inl e"
        and "Inl e \<in> set (document_markup env ms secs)" by blast
      with m Inr have "main env file = Inl e \<and> (\<exists>ms. Inl e \<in> set (document_markup env ms secs))"
        by auto
      then show ?thesis by blast
    qed
  qed
  with f show ?thesis by blast
qed

text \<open>A Document with the frame \<^verbatim>\<open>include gone.py\<close>: a lexer is found, the file is missing, and
  the \<^verbatim>\<open>IOError\<close> is what \<open>main\<close> returns.\<close>

lemma demo_header_plain: "\<exists>h. header demo_env [] = Inr h"
  by (simp add: header_def demo_env_def dict_get_def)

lemma missing_load: "yaml_load demo_env ''missing.yml'' =
    Inr (document_value None [(Str ''Intro'', [(Str ''Basics'', [(Str ''include gone.py'', NoneV)])])])"
  by (simp add: demo_env_def demo_files_def code_document_def document_value_def
      section_value_def subsection_value_def frame_value_def)

theorem unreadable_file_aborts_witness:
  "yaml_load demo_env ''missing.yml'' =
      Inr (document_value None [(Str ''Intro'', [(Str ''Basics'', [(Str ''include gone.py'', NoneV)])])])
   \<and> read_file demo_env ''gone.py'' = None
   \<and> get_lexer_for_filename demo_env ''gone.py'' = Inr ''python''
   \<and> frame demo_env (Str ''include gone.py'') NoneV = Inl IOError
   \<and> main demo_env ''missing.yml'' = Inl IOError"
proof -
  let ?secs = "[(Str ''Intro'', [(Str ''Basics'', [(Str ''include gone.py'', NoneV)])])]"
  have 2: "None = (None :: pyval option) \<longrightarrow> fst (hd ?secs) \<noteq> Str ''metas''" by simp
  have 3: "(Str ''include gone.py'', NoneV) \<in> set (frames_of ?secs)" by (simp add: frames_of_def)
  have 4: "startswith ''include gone.py'' ''include''" by (simp add: startswith_def)
  have 5: "index_list (split ''include gone.py'' CHR '' '') 1 = Inr ''gone.py''"
    by (simp add: index_list_def)
  have 6: "read_file demo_env ''gone.py'' = None" by (simp add: demo_env_def)
  have 7: "get_lexer_for_filename demo_env ''gone.py'' = Inr ''python''" by (simp add: demo_env_def)
  from unreadable_file_aborts[OF missing_load 2 3 4 5 6, THEN conjunct2] 7
  have f: "frame demo_env (Str ''include gone.py'') NoneV = Inl IOError" by simp
  obtain h where h: "header demo_env [] = Inr h" using demo_header_plain by blast
  have "main demo_env ''missing.yml'' =
      and_then (emit (document_markup demo_env [] ?secs)) (\<lambda>out. Inr (encode_utf8 out))"
    using missing_load by (rule main_without_metas) simp_all
  then have "main demo_env ''missing.yml'' = Inl IOError"
    by (simp add: emit_document h section_markup_def subsection_markup_def
        section_cmd_def subsection_cmd_def f)
  with missing_load 6 7 f show ?thesis by blast
qed

subsection \<open>The lexer fallback\<close>

lemma unknown_load: "yaml_load demo_env ''unknown.yml'' =
    Inr (document_value None [(Str ''Intro'', [(Str ''Basics'', [(Str ''include notes.xyz'', NoneV)])])])"
  by (simp add: demo_env_def demo_files_def code_document_def document_value_def
      section_value_def subsection_value_def frame_value_def)

text \<open>
  C2 does not hold of the code. The file \<^verbatim>\<open>notes.xyz\<close> is readable and no lexer matches its name:
  the handler's call of \<^verbatim>\<open>get_lexer_by_name\<close>, a name that is not imported, raises
  \<^verbatim>\<open>NameError\<close>, and the error aborts the frame and the whole assembly.
\<close>

theorem unknown_lexer_aborts:
  "get_lexer_for_filename demo_env ''notes.xyz'' = Inl (ExternalError ''ClassNotFound'')
   \<and> read_file demo_env ''notes.xyz'' = Some ''plain''
   \<and> code demo_env (Str ''include notes.xyz'') = Inl NameError
   \<and> frame demo_env (Str ''include notes.xyz'') NoneV = Inl NameError
   \<and> main demo_env ''unknown.yml'' = Inl NameError"
proof -
  have l: "get_lexer_for_filename demo_env ''notes.xyz'' = Inl (ExternalError ''ClassNotFound'')"
    by (simp add: demo_env_def)
  have r: "read_file demo_env ''notes.xyz'' = Some ''plain''" by (simp add: demo_env_def)
  have c: "code demo_env (Str ''include notes.xyz'') = Inl NameError"
    by (simp add: code_def index_list_def l)
  have f: "frame demo_env (Str ''include notes.xyz'') NoneV = Inl NameError"
    by (simp add: frame_def startswith_def c)
  obtain h where h: "header demo_env [] = Inr h" using demo_header_plain by blast
  have "main demo_env ''unknown.yml'' =
      and_then (emit (document_markup demo_env []
        [(Str ''Intro'', [(Str ''Basics'', [(Str ''include notes.xyz'', NoneV)])])]))
        (\<lambda>out. Inr (encode_utf8 out))"
    using unknown_load by (rule main_without_metas) simp_all
  then have "main demo_env ''unknown.yml'' = Inl NameError"
    by (simp add: emit_document h section_markup_def subsection_markup_def
        section_cmd_def subsection_cmd_def f)
  with l r c f show ?thesis by blast
qed

subsection \<open>Determinism\<close>

text \<open>
  C8. With the collaborators fixed, the output is determined by the Document alone: two runs
  that load the same Document return the same bytes, or the same error. The one order that
  the interpreter chooses inside the repository's own code, that of the escaper's table,
  has no influence on the escaped text.
\<close>

theorem main_depends_on_document_only:
  "(yaml_load env file = yaml_load env file' \<longrightarrow> main env file = main env file')
   \<and> (mset entries = mset dic \<longrightarrow> escape_with entries s = escape_with dic s)"
proof (intro conjI impI)
  assume "yaml_load env file = yaml_load env file'"
  then show "main env file = main env file'" by (simp add: main_def)
next
  assume "mset entries = mset dic"
  then show "escape_with entries s = escape_with dic s" by (rule escape_with_order)
qed

theorem main_depends_on_document_only_witness:
  "yaml_load demo_env ''demo.yml'' = yaml_load demo_env ''copy.yml''
   \<and> main demo_env ''demo.yml'' = main demo_env ''copy.yml''
   \<and> mset (rev dic) = mset dic
   \<and> escape_with (rev dic) ''a_b & c'' = escape_with dic ''a_b & c''"
proof -
  have l: "yaml_load demo_env ''demo.yml'' = yaml_load demo_env ''copy.yml''"
    by (simp add: demo_env_def demo_files_def)
  have m: "mset (rev dic) = mset dic" by simp
  from main_depends_on_document_only[of demo_env "''demo.yml''" "''copy.yml''" "rev dic" "''a_b & c''"] l m
  show ?thesis by blast
qed

subsection \<open>The Frame Dispatcher\<close>

lemma include_not_image: "startswith title ''include'' \<Longrightarrow> \<not> startswith title ''image''"
proof
  assume i: "startswith title ''include''" and m: "startswith title ''image''"
  from i have "take (length ''include'') title = ''include''" by (simp only: startswith_def)
  then have "take 2 (take (length ''include'') title) = take 2 ''include''" by (rule arg_cong)
  then have a: "take 2 title = ''in''" by (simp add: eval_nat_numeral)
  from m have "take (length ''image'') title = ''image''" by (simp only: startswith_def)
  then have "take 2 (take (length ''image'') title) = take 2 ''image''" by (rule arg_cong)
  then have "take 2 title = ''im''" by (simp add: eval_nat_numeral)
  with a show False by simp
qed

text \<open>
  C3 as stated fails in both directions. The first whitespace-delimited token of
  \<^verbatim>\<open>included path/to/file.py\<close> is not \<^verbatim>\<open>include\<close>, and the title is rendered as a code frame;
  that of a title with a leading space is \<^verbatim>\<open>include\<close>, and the title gets the normal frame;
  \<^verbatim>\<open>images of Rome\<close> is rendered as an image frame for the path \<^verbatim>\<open>of\<close>.
\<close>

theorem frame_first_token_counterexample:
  "tokens ''included path/to/file.py'' = [''included'', ''path/to/file.py'']
   \<and> selected ''included path/to/file.py'' = CodeFrame
   \<and> frame demo_env (Str ''included path/to/file.py'') NoneV =
        Inr (''\<newline>'' @ bs @ ''begin{frame}[fragile,t]''
             @ ''\<newline>'' @ tab @ bs @ ''frametitle{Code: '' @ dq @ ''path/to/file.py'' @ dq @ ''}''
             @ ''\<newline>print 1'' @ ''\<newline>'' @ bs @ ''end{frame}'')
   \<and> tokens '' include x.py'' = [''include'', ''x.py'']
   \<and> selected '' include x.py'' = NormalFrame
   \<and> tokens ''images of Rome'' = [''images'', ''of'', ''Rome'']
   \<and> frame demo_env (Str ''images of Rome'') NoneV =
        Inr (''\<newline>'' @ bs @ ''frame[shrink] {''
             @ ''\<newline>'' @ tab @ bs @ ''pgfimage[]{of}'' @ ''\<newline>}'')"
  by (simp add: tokens_def whitespace_def selected_def startswith_def frame_def code_def
      image_cmd_def index_list_def py_dict_def demo_env_def)

text \<open>
  C3, amended. For every frame title, the Frame Dispatcher selects the code-frame rendering
  if and only if the title starts with \<^verbatim>\<open>include\<close>, and the image-frame rendering if and only
  if it starts with \<^verbatim>\<open>image\<close>; every other title gets the normal frame. In the two special
  cases the file or image path is the second element of the title split at every single
  space character.
\<close>

theorem frame_selects_by_prefix:
  "frame env (Str title) items =
     (case selected title of
        CodeFrame \<Rightarrow> code env (Str title)
      | ImageFrame \<Rightarrow> image_cmd env (Str title) items
      | NormalFrame \<Rightarrow>
          and_then (itemize items) (\<lambda>l.
          Inr (''\<newline>'' @ bs @ ''frame {''
               @ ''\<newline>'' @ tab @ bs @ ''frametitle{'' @ escaped title @ ''}'' @ l @ ''\<newline>}'')))
   \<and> (selected title = CodeFrame \<longleftrightarrow> startswith title ''include'')
   \<and> (selected title = ImageFrame \<longleftrightarrow> startswith title ''image'')
   \<and> (index_list (split title CHR '' '') 1 = Inr path
        \<and> get_lexer_for_filename env path = Inr lexer
        \<and> read_file env path = Some contents
        \<and> highlight env contents lexer = Inr markup
      \<longrightarrow> code env (Str title) =
            Inr (''\<newline>'' @ bs @ ''begin{frame}[fragile,t]''
                 @ ''\<newline>'' @ tab @ bs @ ''frametitle{Code: '' @ dq @ path @ dq @ ''}''
                 @ markup @ ''\<newline>'' @ bs @ ''end{frame}''))
   \<and> (index_list (split title CHR '' '') 1 = Inr path
        \<and> py_dict (if py_truth items then items else Str []) = Inr d
      \<longrightarrow> image_cmd env (Str title) items =
            Inr (''\<newline>'' @ bs @ ''frame[shrink] {''
                 @ ''\<newline>'' @ tab @ bs @ ''pgfimage[''
                 @ join '','' (map (\<lambda>(k, v). to_str env k @ ''='' @ to_str env v) (dict_items env d))
                 @ '']{'' @ path @ ''}'' @ ''\<newline>}''))"
proof (intro conjI impI)
  show "frame env (Str title) items =
     (case selected title of
        CodeFrame \<Rightarrow> code env (Str title)
      | ImageFrame \<Rightarrow> image_cmd env (Str title) items
      | NormalFrame \<Rightarrow>
          and_then (itemize items) (\<lambda>l.
          Inr (''\<newline>'' @ bs @ ''frame {''
               @ ''\<newline>'' @ tab @ bs @ ''frametitle{'' @ escaped title @ ''}'' @ l @ ''\<newline>}'')))"
    by (simp add: frame_def selected_def escape_with_dic)
next
  show "selected title = CodeFrame \<longleftrightarrow> startswith title ''include''"
    by (simp add: selected_def)
next
  show "selected title = ImageFrame \<longleftrightarrow> startswith title ''image''"
    using include_not_image[of title] by (auto simp: selected_def)
next
  assume "index_list (split title CHR '' '') 1 = Inr path
        \<and> get_lexer_for_filename env path = Inr lexer
        \<and> read_file env path = Some contents
        \<and> highlight env contents lexer = Inr markup"
  then show "code env (Str title) =
            Inr (''\<newline>'' @ bs @ ''begin{frame}[fragile,t]''
                 @ ''\<newline>'' @ tab @ bs @ ''frametitle{Code: '' @ dq @ path @ dq @ ''}''
                 @ markup @ ''\<newline>'' @ bs @ ''end{frame}'')"
    by (simp add: code_def)
next
  assume "index_list (split title CHR '' '') 1 = Inr path
        \<and> py_dict (if py_truth items then items else Str []) = Inr d"
  then show "image_cmd env (Str title) items =
            Inr (''\<newline>'' @ bs @ ''frame[shrink] {''
                 @ ''\<newline>'' @ tab @ bs @ ''pgfimage[''
                 @ join '','' (map (\<lambda>(k, v). to_str env k @ ''='' @ to_str env v) (dict_items env d))
                 @ '']{'' @ path @ ''}'' @ ''\<newline>}'')"
    by (cases "py_truth items") (simp_all add: image_cmd_def)
qed

text \<open>The two examples of the specification, in \<open>demo_env\<close>.\<close>

theorem frame_selects_by_prefix_witness:
  "selected ''include path/to/file.py'' = CodeFrame
   \<and> frame demo_env (Str ''include path/to/file.py'') NoneV =
        Inr (''\<newline>'' @ bs @ ''begin{frame}[fragile,t]''
             @ ''\<newline>'' @ tab @ bs @ ''frametitle{Code: '' @ dq @ ''path/to/file.py'' @ dq @ ''}''
             @ ''\<newline>print 1'' @ ''\<newline>'' @ bs @ ''end{frame}'')
   \<and> selected ''image diagram.png'' = ImageFrame
   \<and> frame demo_env (Str ''image diagram.png'') (List [Tuple [Str ''width'', Str ''5cm'']]) =
        Inr (''\<newline>'' @ bs @ ''frame[shrink] {''
             @ ''\<newline>'' @ tab @ bs @ ''pgfimage[width=5cm]{diagram.png}'' @ ''\<newline>}'')"
proof -
  have c: "selected ''include path/to/file.py'' = CodeFrame"
    by (simp add: selected_def startswith_def)
  have i: "selected ''image diagram.png'' = ImageFrame"
    by (simp add: selected_def startswith_def)
  have c1: "index_list (split ''include path/to/file.py'' CHR '' '') 1 = Inr ''path/to/file.py''
        \<and> get_lexer_for_filename demo_env ''path/to/file.py'' = Inr ''python''
        \<and> read_file demo_env ''path/to/file.py'' = Some ''print 1''
        \<and> highlight demo_env ''print 1'' ''python'' = Inr ''\<newline>print 1''"
    by (simp add: index_list_def demo_env_def)
  have i1: "index_list (split ''image diagram.png'' CHR '' '') 1 = Inr ''diagram.png''
        \<and> py_dict (if py_truth (List [Tuple [Str ''width'', Str ''5cm'']])
                    then List [Tuple [Str ''width'', Str ''5cm'']] else Str [])
            = Inr [(Str ''width'', Str ''5cm'')]"
    by (simp add: index_list_def py_dict_def dict_entry_def)
  note t1 = frame_selects_by_prefix[of demo_env "''include path/to/file.py''" NoneV
      "''path/to/file.py''" "''python''" "''print 1''" "''\<newline>print 1''" "[]"]
  note t2 = frame_selects_by_prefix[of demo_env "''image diagram.png''"
      "List [Tuple [Str ''width'', Str ''5cm'']]" "''diagram.png''" "''python''" "''print 1''"
      "''\<newline>print 1''" "[(Str ''width'', Str ''5cm'')]"]
  have "frame demo_env (Str ''include path/to/file.py'') NoneV =
        Inr (''\<newline>'' @ bs @ ''begin{frame}[fragile,t]''
             @ ''\<newline>'' @ tab @ bs @ ''frametitle{Code: '' @ dq @ ''path/to/file.py'' @ dq @ ''}''
             @ ''\<newline>print 1'' @ ''\<newline>'' @ bs @ ''end{frame}'')"
    using t1 c c1 by simp
  moreover have "frame demo_env (Str ''image diagram.png'') (List [Tuple [Str ''width'', Str ''5cm'']]) =
        Inr (''\<newline>'' @ bs @ ''frame[shrink] {''
             @ ''\<newline>'' @ tab @ bs @ ''pgfimage[width=5cm]{diagram.png}'' @ ''\<newline>}'')"
    using t2 i i1 by (simp add: demo_env_def)
  ultimately show ?thesis using c i by blast
qed


subsection \<open>The header\<close>

text \<open>
  C10. The header inserts the title, author, institute and date of the Metadata Map as they
  are, reserved characters included, whereas section titles, subsection titles and the
  titles of normal frames pass through the Escaper.
\<close>

theorem header_inserts_metadata_verbatim:
  assumes "get_style_defs env (dict_get metas ''highlight_style'' (Str ''default'')) = Inr defs"
    and "dict_get metas ''title'' (Str ''Example Presentation'') = Str title"
    and "dict_get metas ''author'' (Str ''Arthur Koziel'') = Str author"
    and "dict_get metas ''institute'' (Str '''') = Str institute"
    and "dict_get metas ''date'' (Str (bs @ ''today'')) = Str date"
  shows "(\<exists>pre post. header env metas =
            Inr (pre @ bs @ ''title{'' @ title @ ''}''
                 @ ''\<newline>'' @ bs @ ''author{'' @ author @ ''}''
                 @ ''\<newline>'' @ bs @ ''institute{'' @ institute @ ''}''
                 @ ''\<newline>'' @ bs @ ''date{'' @ date @ ''}'' @ post))
     \<and> section_cmd (Str title) = Inr (''\<newline>\<newline>'' @ bs @ ''section{'' @ escaped title @ ''}'')
     \<and> subsection_cmd (Str title) = Inr (''\<newline>'' @ bs @ ''subsection{'' @ escaped title @ ''}'')
     \<and> (selected title = NormalFrame \<longrightarrow>
          frame env (Str title) items =
            and_then (itemize items) (\<lambda>l.
            Inr (''\<newline>'' @ bs @ ''frame {''
                 @ ''\<newline>'' @ tab @ bs @ ''frametitle{'' @ escaped title @ ''}'' @ l @ ''\<newline>}'')))"
proof -
  let ?pre = "bs @ ''documentclass[slidestop,red]{beamer}''
      @ ''\<newline>'' @ bs @ ''usepackage[utf8]{inputenc}''
      @ ''\<newline>'' @ bs @ ''usepackage{fancyvrb,color}\<newline>\<newline>''
      @ defs
      @ ''\<newline>\<newline>'' @ bs @ ''usetheme{Antibes}''
      @ ''\<newline>'' @ bs @ ''setbeamertemplate{footline}[frame number]''
      @ ''\<newline>'' @ bs @ ''usecolortheme{lily}''
      @ ''\<newline>'' @ bs @ ''beamertemplateshadingbackground{blue!5}{yellow!10}''
      @ ''\<newline>\<newline>''"
  let ?doc = "''\<newline>\<newline>'' @ bs @ ''begin{document}''
      @ ''\<newline>\<newline>'' @ bs @ ''frame{'' @ bs @ ''titlepage}''"
  let ?outline = "''\<newline>\<newline>'' @ bs @ ''section*{Outline}''
      @ ''\<newline>'' @ bs @ ''frame {''
      @ ''\<newline>'' @ tab @ bs @ ''frametitle{Outline}''
      @ ''\<newline>'' @ tab @ bs @ ''tableofcontents''
      @ ''\<newline>}''
      @ ''\<newline>\<newline>'' @ bs @ ''AtBeginSection[] {''
      @ ''\<newline>'' @ tab @ bs @ ''frame{''
      @ ''\<newline>'' @ tab @ tab @ bs @ ''frametitle{Outline}''
      @ ''\<newline>'' @ tab @ tab @ bs @ ''tableofcontents[currentsection]''
      @ ''\<newline>'' @ tab @ ''}''
      @ ''\<newline>}''"
  let ?post = "?doc @ (if py_truth (dict_get metas ''outline'' (Bool True)) then ?outline else [])"
  have "header env metas =
            Inr (?pre @ bs @ ''title{'' @ title @ ''}''
                 @ ''\<newline>'' @ bs @ ''author{'' @ author @ ''}''
                 @ ''\<newline>'' @ bs @ ''institute{'' @ institute @ ''}''
                 @ ''\<newline>'' @ bs @ ''date{'' @ date @ ''}'' @ ?post)"
    using assms by (simp add: header_def)
  then have "\<exists>pre post. header env metas =
            Inr (pre @ bs @ ''title{'' @ title @ ''}''
                 @ ''\<newline>'' @ bs @ ''author{'' @ author @ ''}''
                 @ ''\<newline>'' @ bs @ ''institute{'' @ institute @ ''}''
                 @ ''\<newline>'' @ bs @ ''date{'' @ date @ ''}'' @ post)"
    by blast
  moreover have "section_cmd (Str title) =
      Inr (''\<newline>\<newline>'' @ bs @ ''section{'' @ escaped title @ ''}'')"
    by (simp add: section_cmd_def escape_with_dic)
  moreover have "subsection_cmd (Str title) =
      Inr (''\<newline>'' @ bs @ ''subsection{'' @ escaped title @ ''}'')"
    by (simp add: subsection_cmd_def escape_with_dic)
  moreover have "selected title = NormalFrame \<longrightarrow>
          frame env (Str title) items =
            and_then (itemize items) (\<lambda>l.
            Inr (''\<newline>'' @ bs @ ''frame {''
                 @ ''\<newline>'' @ tab @ bs @ ''frametitle{'' @ escaped title @ ''}'' @ l @ ''\<newline>}''))"
    by (auto simp: selected_def frame_def escape_with_dic split: if_splits)
  ultimately show ?thesis by blast
qed

text \<open>The title \<^verbatim>\<open>R&D\<close>: as it is in the header, escaped in the three headings.\<close>

theorem header_inserts_metadata_verbatim_witness:
  "(\<exists>pre post. header demo_env [(Str ''title'', Str ''R&D'')] =
            Inr (pre @ bs @ ''title{R&D}''
                 @ ''\<newline>'' @ bs @ ''author{Arthur Koziel}''
                 @ ''\<newline>'' @ bs @ ''institute{}''
                 @ ''\<newline>'' @ bs @ ''date{'' @ bs @ ''today}'' @ post))
     \<and> section_cmd (Str ''R&D'') = Inr (''\<newline>\<newline>'' @ bs @ ''section{R'' @ bs @ ''&D}'')
     \<and> subsection_cmd (Str ''R&D'') = Inr (''\<newline>'' @ bs @ ''subsection{R'' @ bs @ ''&D}'')
     \<and> selected ''R&D'' = NormalFrame
     \<and> frame demo_env (Str ''R&D'') (List []) =
            Inr (''\<newline>'' @ bs @ ''frame {''
                 @ ''\<newline>'' @ tab @ bs @ ''frametitle{R'' @ bs @ ''&D}''
                 @ ''\<newline>'' @ tab @ bs @ ''begin{itemize}[<+-| alert@+>]''
                 @ ''\<newline>'' @ tab @ bs @ ''end{itemize}'' @ ''\<newline>}'')"
proof -
  let ?m = "[(Str ''title'', Str ''R&D'')]"
  have 1: "get_style_defs demo_env (dict_get ?m ''highlight_style'' (Str ''default'')) = Inr []"
    by (simp add: demo_env_def)
  have 2: "dict_get ?m ''title'' (Str ''Example Presentation'') = Str ''R&D''"
    by (simp add: dict_get_def)
  have 3: "dict_get ?m ''author'' (Str ''Arthur Koziel'') = Str ''Arthur Koziel''"
    by (simp add: dict_get_def)
  have 4: "dict_get ?m ''institute'' (Str '''') = Str ''''"
    by (simp add: dict_get_def)
  have 5: "dict_get ?m ''date'' (Str (bs @ ''today'')) = Str (bs @ ''today'')"
    by (simp add: dict_get_def)
  have s: "selected ''R&D'' = NormalFrame" by (simp add: selected_def startswith_def)
  have e: "escaped ''R&D'' = ''R'' @ bs @ ''&D''" by (simp add: escaped_def reserved_def)
  have i: "itemize (List []) = Inr (''\<newline>'' @ tab @ bs @ ''begin{itemize}[<+-| alert@+>]''
                 @ ''\<newline>'' @ tab @ bs @ ''end{itemize}'')"
    using itemize_items[of "[]"] by (simp add: render_list_def)
  from header_inserts_metadata_verbatim[OF 1 2 3 4 5, of "List []"] s e i
  show ?thesis by simp
qed

end
